theory Spec2Isabelle
  imports Main "HOL-Library.Log_Nat" "HOL-Library.Multiset" "HOL-Library.Sublist"
begin

section \<open>JavaScript values and strings\<close>

text \<open>
  The repository is a React application. Its data layer (\<^verbatim>\<open>utils/data\<close>: \<^verbatim>\<open>KG_TO_LB\<close>,
  \<^verbatim>\<open>normalizeName\<close>, \<^verbatim>\<open>parseDate\<close>, \<^verbatim>\<open>toNumber\<close>, \<^verbatim>\<open>processCsvData\<close>) and the two memoised
  computations \<^verbatim>\<open>filtered\<close> and \<^verbatim>\<open>traces\<close> of \<^verbatim>\<open>App.jsx\<close> are embedded here as HOL functions.

  A raw cell, as PapaParse delivers it with \<^verbatim>\<open>header: true\<close>, is a string; a column that
  the row lacks reads as \<^verbatim>\<open>undefined\<close>. \<^verbatim>\<open>null\<close> is kept as a value because \<^verbatim>\<open>toNumber\<close>
  tests for it. A JavaScript string is modelled as a \<^typ>\<open>string\<close> whose characters are
  read as the code units U+0000 .. U+00FF (ISO-8859-1), one \<^typ>\<open>char\<close> per code unit.
\<close>

datatype jsval = Undefined | Null | Str string

text \<open>\<^verbatim>\<open>!!v\<close>: of the values above only a non-empty string is truthy.\<close>

fun truthy :: "jsval \<Rightarrow> bool" where
  "truthy Undefined = False"
| "truthy Null = False"
| "truthy (Str s) = (s \<noteq> [])"

text \<open>\<^verbatim>\<open>a || b\<close>: the left operand when it is truthy, the right operand otherwise.\<close>

definition js_or :: "jsval \<Rightarrow> jsval \<Rightarrow> jsval" where
  "js_or a b = (if truthy a then a else b)"

text \<open>A row object: property access \<^verbatim>\<open>r.key\<close> gives \<^verbatim>\<open>undefined\<close> for a missing key.\<close>

type_synonym row = "string \<Rightarrow> jsval"

definition empty_row :: row where
  "empty_row = (\<lambda>k. Undefined)"

subsection \<open>Character classes\<close>

definition code :: "char \<Rightarrow> nat" where
  "code c = of_char c"

definition is_digit :: "char \<Rightarrow> bool" where
  "is_digit c = (48 \<le> code c \<and> code c \<le> 57)"

definition is_lower_az :: "char \<Rightarrow> bool" where
  "is_lower_az c = (97 \<le> code c \<and> code c \<le> 122)"

text \<open>
  The regular expression class \<^verbatim>\<open>\s\<close> and the characters \<^verbatim>\<open>trim\<close> removes (WhiteSpace and
  LineTerminator of ECMA-262), within U+0000 .. U+00FF: TAB, LF, VT, FF, CR, SP and NBSP.
\<close>

definition is_space :: "char \<Rightarrow> bool" where
  "is_space c = (code c = 9 \<or> code c = 10 \<or> code c = 11 \<or> code c = 12 \<or> code c = 13
                  \<or> code c = 32 \<or> code c = 160)"

text \<open>
  \<^verbatim>\<open>String.prototype.toLowerCase\<close> on one code unit of the range: A-Z and the Latin-1
  capitals U+00C0 .. U+00DE (but the multiplication sign U+00D7) move up by 32.
\<close>

definition lower_char :: "char \<Rightarrow> char" where
  "lower_char c =
     (if (65 \<le> code c \<and> code c \<le> 90) \<or> (192 \<le> code c \<and> code c \<le> 222 \<and> code c \<noteq> 215)
      then char_of (code c + 32) else c)"

definition toLowerCase :: "string \<Rightarrow> string" where
  "toLowerCase s = map lower_char s"

definition trim :: "string \<Rightarrow> string" where
  "trim s = rev (dropWhile is_space (rev (dropWhile is_space s)))"

text \<open>\<^verbatim>\<open>s.includes(sub)\<close>: \<^verbatim>\<open>sub\<close> occurs in \<^verbatim>\<open>s\<close> as a contiguous block.\<close>

fun starts_with :: "string \<Rightarrow> string \<Rightarrow> bool" where
  "starts_with s [] = True"
| "starts_with [] (c # cs) = False"
| "starts_with (d # ds) (c # cs) = (d = c \<and> starts_with ds cs)"

fun str_includes :: "string \<Rightarrow> string \<Rightarrow> bool" where
  "str_includes [] sub = (sub = [])"
| "str_includes (d # ds) sub = (starts_with (d # ds) sub \<or> str_includes ds sub)"

section \<open>JavaScript numbers\<close>

text \<open>
  A Number is an IEEE 754 double: NaN, the two infinities, or a finite value, given here
  by the rational it denotes. The sign of a zero is not recorded (\<^verbatim>\<open>+0\<close> and \<^verbatim>\<open>-0\<close> are
  both \<open>Fin 0\<close>): \<^verbatim>\<open>===\<close> does not tell them apart and nothing below depends on it.
\<close>

datatype jsnum = NaN | PInf | NInf | Fin rat

fun isNaN :: "jsnum \<Rightarrow> bool" where
  "isNaN NaN = True"
| "isNaN x = False"

fun isFinite :: "jsnum \<Rightarrow> bool" where
  "isFinite (Fin q) = True"
| "isFinite x = False"

definition pow2 :: "int \<Rightarrow> rat" where
  "pow2 k = (if 0 \<le> k then of_int (2 ^ nat k) else 1 / of_int (2 ^ nat (- k)))"

text \<open>The exponent \<open>e\<close> with \<open>2^e \<le> a < 2^(e+1)\<close>, for a positive \<open>a\<close>.\<close>

definition ilog2 :: "rat \<Rightarrow> int" where
  "ilog2 a = (let (n, d) = quotient_of a; k = bitlen n - bitlen d
              in if pow2 k \<le> a then k else k - 1)"

definition round_half_even :: "rat \<Rightarrow> int" where
  "round_half_even r =
     (let f = \<lfloor>r\<rfloor>; d = r - of_int f
      in if d < 1 / 2 then f else if 1 / 2 < d then f + 1 else if even f then f else f + 1)"

text \<open>
  Rounding a positive real to the nearest double, ties to the even significand: the
  spacing of doubles around \<open>a\<close> is \<open>2^(e - 52)\<close>, with the exponent held at \<open>-1022\<close> in the
  subnormal range.
\<close>

definition round_double_pos :: "rat \<Rightarrow> rat" where
  "round_double_pos a =
     (let e = max (ilog2 a) (- 1022); ulp = pow2 (e - 52)
      in of_int (round_half_even (a / ulp)) * ulp)"

text \<open>
  The Number value for a real (ECMA-262, 6.1.6.1): a magnitude of at least
  \<open>2^1024 - 2^970\<close> (half way between the largest double and \<open>2^1024\<close>) becomes an infinity.
\<close>

definition round_double :: "rat \<Rightarrow> jsnum" where
  "round_double q =
     (if q = 0 then Fin 0
      else if of_int (2 ^ 1024 - 2 ^ 970) \<le> \<bar>q\<bar> then (if 0 < q then PInf else NInf)
      else Fin (if 0 < q then round_double_pos q else - round_double_pos (- q)))"

fun fneg :: "jsnum \<Rightarrow> jsnum" where
  "fneg NaN = NaN"
| "fneg PInf = NInf"
| "fneg NInf = PInf"
| "fneg (Fin q) = Fin (- q)"

text \<open>The sign of a Number that is not NaN, as \<open>-1\<close>, \<open>0\<close> or \<open>1\<close>.\<close>

fun fsgn :: "jsnum \<Rightarrow> int" where
  "fsgn PInf = 1"
| "fsgn NInf = - 1"
| "fsgn (Fin q) = (if q = 0 then 0 else if 0 < q then 1 else - 1)"
| "fsgn NaN = 0"

text \<open>\<^verbatim>\<open>x * y\<close>: the exact product rounded; NaN for a NaN operand and for \<open>0 * \<infinity>\<close>.\<close>

fun fmul :: "jsnum \<Rightarrow> jsnum \<Rightarrow> jsnum" where
  "fmul (Fin a) (Fin b) = round_double (a * b)"
| "fmul x y =
     (if isNaN x \<or> isNaN y \<or> fsgn x * fsgn y = 0 then NaN
      else if 0 < fsgn x * fsgn y then PInf else NInf)"

subsection \<open>Number(string)\<close>

definition digit_val :: "char \<Rightarrow> int" where
  "digit_val c = int (code c) - 48"

text \<open>The value of a string of decimal digits, read left to right.\<close>

definition digits_val :: "string \<Rightarrow> int" where
  "digits_val s = foldl (\<lambda>n c. 10 * n + digit_val c) 0 s"

text \<open>
  \<open>StrUnsignedDecimalLiteral\<close> over digits and the point: \<^verbatim>\<open>DDD\<close>, \<^verbatim>\<open>DDD.\<close>, \<^verbatim>\<open>DDD.DDD\<close> or
  \<^verbatim>\<open>.DDD\<close>; its mathematical value, or \<open>None\<close> when the string is not of that form.
\<close>

definition str_unsigned :: "string \<Rightarrow> rat option" where
  "str_unsigned s =
     (let ip = takeWhile is_digit s; rest = dropWhile is_digit s
      in case rest of
           [] \<Rightarrow> (if ip = [] then None else Some (of_int (digits_val ip)))
         | c # fp \<Rightarrow>
             (if c = CHR ''.'' \<and> list_all is_digit fp \<and> (ip \<noteq> [] \<or> fp \<noteq> [])
              then Some (of_int (digits_val (ip @ fp)) / of_int (10 ^ length fp))
              else None))"

text \<open>
  \<^verbatim>\<open>Number(s)\<close> (\<open>StringToNumber\<close>) for a string \<open>s\<close> of digits, points and minus signs, the
  only strings this program passes to it: the empty string is \<open>0\<close>, an optionally negated
  decimal literal is its value rounded to a double, anything else is NaN. (The other forms
  of the grammar, white space, \<^verbatim>\<open>+\<close>, exponents, \<^verbatim>\<open>Infinity\<close> and the radix prefixes, need
  characters outside this alphabet.) The decimal value is rounded exactly, as the common
  engines do.
\<close>

definition Number_str :: "string \<Rightarrow> jsnum" where
  "Number_str s =
     (case s of
        [] \<Rightarrow> Fin 0
      | c # cs \<Rightarrow>
          (if c = CHR ''-''
           then (case str_unsigned cs of None \<Rightarrow> NaN | Some q \<Rightarrow> fneg (round_double q))
           else (case str_unsigned s of None \<Rightarrow> NaN | Some q \<Rightarrow> round_double q)))"

subsection \<open>Number.prototype.toFixed(2) and unary plus\<close>

text \<open>The decimal digits of a non-negative integer, most significant first.\<close>

function dec_digits :: "int \<Rightarrow> string" where
  "dec_digits n =
     (if n < 10 then [char_of (48 + nat n)]
      else dec_digits (n div 10) @ [char_of (48 + nat (n mod 10))])"
  by pat_completeness auto
termination
  by (relation "measure nat") auto

declare dec_digits.simps [simp del]

text \<open>
  The result of \<^verbatim>\<open>x.toFixed(2)\<close>. For a finite \<open>x\<close> below \<open>10^21\<close> in magnitude it is the
  string of the integer \<open>n\<close> nearest to \<open>100 * \<bar>x\<bar>\<close> (the larger one of two), padded to three
  digits, with a point before the last two and a minus sign for a negative \<open>x\<close>. Otherwise
  it is \<^verbatim>\<open>String(x)\<close>, which is not spelled out here: \<open>AsNumber x\<close> stands for a string that
  reads back as \<open>x\<close>.
\<close>

datatype numstring = Digits string | AsNumber jsnum

definition toFixed2 :: "jsnum \<Rightarrow> numstring" where
  "toFixed2 x =
     (case x of
        Fin q \<Rightarrow>
          (if 10 ^ 21 \<le> \<bar>q\<bar> then AsNumber x
           else let n = \<lfloor>\<bar>q\<bar> * 100 + 1 / 2\<rfloor>;
                    m = dec_digits n;
                    m' = replicate (3 - length m) CHR ''0'' @ m;
                    k = length m'
                in Digits ((if q < 0 then ''-'' else []) @ take (k - 2) m' @ ''.'' @ drop (k - 2) m'))
      | _ \<Rightarrow> AsNumber x)"

text \<open>Unary \<^verbatim>\<open>+\<close> on the result of \<^verbatim>\<open>toFixed\<close>.\<close>

fun unary_plus :: "numstring \<Rightarrow> jsnum" where
  "unary_plus (Digits s) = Number_str s"
| "unary_plus (AsNumber x) = x"

section \<open>JavaScript dates\<close>

text \<open>
  A Date holds a time value: milliseconds since 1970-01-01T00:00:00Z as an integer of
  magnitude at most \<open>8.64 * 10^15\<close>, or NaN (here \<open>None\<close>) for an invalid date.
\<close>

definition days_from_civil :: "int \<Rightarrow> int \<Rightarrow> int \<Rightarrow> int" where
  "days_from_civil y m d =
     (let y' = (if m \<le> 2 then y - 1 else y);
          era = y' div 400;
          yoe = y' - era * 400;
          doy = (153 * (if 2 < m then m - 3 else m + 9) + 2) div 5 + d - 1;
          doe = yoe * 365 + yoe div 4 - yoe div 100 + doy
      in era * 146097 + doe - 719468)"

definition civil_from_days :: "int \<Rightarrow> int \<times> int \<times> int" where
  "civil_from_days z0 =
     (let z = z0 + 719468;
          era = z div 146097;
          doe = z - era * 146097;
          yoe = (doe - doe div 1460 + doe div 36524 - doe div 146096) div 365;
          doy = doe - (365 * yoe + yoe div 4 - yoe div 100);
          mp = (5 * doy + 2) div 153;
          d = doy - (153 * mp + 2) div 5 + 1;
          m = (if mp < 10 then mp + 3 else mp - 9);
          y = yoe + era * 400
      in (if m \<le> 2 then y + 1 else y, m, d))"

definition is_leap :: "int \<Rightarrow> bool" where
  "is_leap y = (y mod 4 = 0 \<and> (y mod 100 \<noteq> 0 \<or> y mod 400 = 0))"

definition days_in_month :: "int \<Rightarrow> int \<Rightarrow> int" where
  "days_in_month y m =
     (if m = 2 then (if is_leap y then 29 else 28)
      else if m = 4 \<or> m = 6 \<or> m = 9 \<or> m = 11 then 30 else 31)"

definition ms_per_day :: int where
  "ms_per_day = 86400000"

text \<open>
  The date-only form \<^verbatim>\<open>YYYY-MM-DD\<close> of the ECMAScript date-time string format, for a day
  that exists in the calendar: midnight UTC of that day.
\<close>

definition iso_date_only :: "string \<Rightarrow> int option" where
  "iso_date_only s =
     (case s of
        [y1, y2, y3, y4, h1, m1, m2, h2, d1, d2] \<Rightarrow>
          (if list_all is_digit [y1, y2, y3, y4, m1, m2, d1, d2] \<and> h1 = CHR ''-'' \<and> h2 = CHR ''-''
           then let y = digits_val [y1, y2, y3, y4]; m = digits_val [m1, m2];
                    d = digits_val [d1, d2]
                in if 1 \<le> m \<and> m \<le> 12 \<and> 1 \<le> d \<and> d \<le> days_in_month y m
                   then Some (days_from_civil y m d * ms_per_day) else None
           else None)
      | _ \<Rightarrow> None)"

definition time_clip :: "int option \<Rightarrow> int option" where
  "time_clip t = (case t of None \<Rightarrow> None
                  | Some v \<Rightarrow> if 8640000000000000 < \<bar>v\<bar> then None else Some v)"

text \<open>
  \<^verbatim>\<open>new Date(s).getTime()\<close> for a string \<open>s\<close>. A string in the date-only form above has the
  time value the standard fixes. For every other string the standard either fixes a value
  this model does not spell out or leaves the parse to the implementation: the parameter
  \<open>F\<close> stands for the engine's answer there, so every statement below is about every
  engine.
\<close>

definition Date_parse :: "(string \<Rightarrow> int option) \<Rightarrow> string \<Rightarrow> int option" where
  "Date_parse F s = (case iso_date_only s of Some t \<Rightarrow> Some t | None \<Rightarrow> time_clip (F s))"

text \<open>\<^verbatim>\<open>new Date(v).getTime()\<close> for a field that is a string or \<^verbatim>\<open>null\<close>: \<^verbatim>\<open>null\<close> converts to \<open>0\<close>.\<close>

definition new_Date :: "(string \<Rightarrow> int option) \<Rightarrow> string option \<Rightarrow> int option" where
  "new_Date F v = (case v of None \<Rightarrow> Some 0 | Some s \<Rightarrow> Date_parse F s)"

definition pad :: "nat \<Rightarrow> int \<Rightarrow> string" where
  "pad w n = replicate (w - length (dec_digits n)) CHR ''0'' @ dec_digits n"

text \<open>
  \<^verbatim>\<open>Date.prototype.toISOString\<close> of a valid time value: \<^verbatim>\<open>YYYY-MM-DDTHH:mm:ss.sssZ\<close>, the year
  with a sign and six digits outside 0 .. 9999.
\<close>

definition toISOString :: "int \<Rightarrow> string" where
  "toISOString t =
     (let (y, m, d) = civil_from_days (t div ms_per_day);
          r = t mod ms_per_day;
          year = (if 0 \<le> y \<and> y \<le> 9999 then pad 4 y
                  else (if y < 0 then ''-'' else ''+'') @ pad 6 \<bar>y\<bar>)
      in year @ ''-'' @ pad 2 m @ ''-'' @ pad 2 d @ ''T'' @ pad 2 (r div 3600000) @ '':''
         @ pad 2 (r mod 3600000 div 60000) @ '':'' @ pad 2 (r mod 60000 div 1000) @ ''.''
         @ pad 3 (r mod 1000) @ ''Z'')"

section \<open>utils/data: normalizeName\<close>

text \<open>\<^verbatim>\<open>.replace(/[^a-z0-9\s]/g, '')\<close>: every character outside the class is deleted.\<close>

definition keep_name_char :: "char \<Rightarrow> bool" where
  "keep_name_char c = (is_lower_az c \<or> is_digit c \<or> is_space c)"

definition strip_name :: "string \<Rightarrow> string" where
  "strip_name s = filter keep_name_char s"

text \<open>\<^verbatim>\<open>.replace(/\s+/g, ' ')\<close>: every maximal run of white space becomes one space.\<close>

fun collapse_ws :: "string \<Rightarrow> string" where
  "collapse_ws [] = []"
| "collapse_ws [c] = [if is_space c then CHR '' '' else c]"
| "collapse_ws (c # d # cs) =
     (if is_space c
      then (if is_space d then collapse_ws (d # cs) else CHR '' '' # collapse_ws (d # cs))
      else c # collapse_ws (d # cs))"

text \<open>
  \<^verbatim>\<open>if (!name) return ''\<close>, then
  \<^verbatim>\<open>String(name).trim().toLowerCase().replace(/[^a-z0-9\s]/g, '').replace(/\s+/g, ' ')\<close>.
\<close>

fun normalizeName :: "jsval \<Rightarrow> string" where
  "normalizeName (Str s) =
     (if s = [] then [] else collapse_ws (strip_name (toLowerCase (trim s))))"
| "normalizeName v = []"

section \<open>utils/data: KG_TO_LB, parseDate, toNumber, processCsvData\<close>

text \<open>\<^verbatim>\<open>export const KG_TO_LB = 2.20462\<close>: the double nearest to the literal.\<close>

definition KG_TO_LB :: jsnum where
  "KG_TO_LB = round_double (220462 / 100000)"

text \<open>
  \<^verbatim>\<open>if (!d) return null\<close>; \<^verbatim>\<open>const t = new Date(d)\<close>;
  \<^verbatim>\<open>return isNaN(t.getTime()) ? null : t.toISOString().slice(0,10)\<close>.
\<close>

fun parseDate :: "(string \<Rightarrow> int option) \<Rightarrow> jsval \<Rightarrow> string option" where
  "parseDate F (Str s) =
     (if s = [] then None
      else case Date_parse F s of None \<Rightarrow> None | Some t \<Rightarrow> Some (take 10 (toISOString t)))"
| "parseDate F v = None"

text \<open>The character class of \<^verbatim>\<open>/[^0-9\.\-]/g\<close>, whose complement \<^verbatim>\<open>toNumber\<close> deletes.\<close>

definition num_char :: "char \<Rightarrow> bool" where
  "num_char c = (is_digit c \<or> c = CHR ''.'' \<or> c = CHR ''-'')"

text \<open>
  \<^verbatim>\<open>if (v === undefined || v === null) return null\<close>;
  \<^verbatim>\<open>const n = Number(String(v).replace(/[^0-9\.\-]/g, ''))\<close>; \<^verbatim>\<open>return isNaN(n) ? null : n\<close>.
  The result \<^verbatim>\<open>null\<close> is \<open>None\<close>.
\<close>

fun toNumber :: "jsval \<Rightarrow> jsnum option" where
  "toNumber Undefined = None"
| "toNumber Null = None"
| "toNumber (Str s) = (let n = Number_str (filter num_char s) in if isNaN n then None else Some n)"

text \<open>The canonical record \<^verbatim>\<open>out\<close> that \<^verbatim>\<open>processCsvData\<close> builds for one row.\<close>

record LifterRecord =
  Name :: string
  NameNormalized :: string
  MeetDate :: "string option"
  Equipment :: string
  Federation :: string
  Age :: "jsnum option"
  BodyweightKg :: "jsnum option"
  SquatKg :: "jsnum option"
  BenchKg :: "jsnum option"
  DeadliftKg :: "jsnum option"
  TotalKg :: "jsnum option"
  SquatLb :: "jsnum option"
  BenchLb :: "jsnum option"
  DeadliftLb :: "jsnum option"
  TotalLb :: "jsnum option"

text \<open>\<^verbatim>\<open>v || ''\<close> at the end of a chain of cells: the string of a truthy \<open>v\<close>, else \<^verbatim>\<open>''\<close>.\<close>

fun or_empty :: "jsval \<Rightarrow> string" where
  "or_empty (Str s) = s"
| "or_empty v = []"

text \<open>\<^verbatim>\<open>parseDate(...) || null\<close>.\<close>

fun or_null :: "string option \<Rightarrow> string option" where
  "or_null (Some s) = (if s = [] then None else Some s)"
| "or_null None = None"

text \<open>\<^verbatim>\<open>kg != null ? +(kg * KG_TO_LB).toFixed(2) : null\<close>, the expression of the four pound fields.\<close>

fun toLb :: "jsnum option \<Rightarrow> jsnum option" where
  "toLb (Some k) = Some (unary_plus (toFixed2 (fmul k KG_TO_LB)))"
| "toLb None = None"

text \<open>The body of the callback of \<^verbatim>\<open>rows.map\<close>, with the assignments in the source's order.\<close>

definition processRow :: "(string \<Rightarrow> int option) \<Rightarrow> row \<Rightarrow> LifterRecord" where
  "processRow F r =
     (let name = or_empty (js_or (js_or (r ''Name'') (r ''name'')) (r ''lifter''));
          nameNormalized = normalizeName (Str name);
          meetDate = or_null (parseDate F
            (js_or (js_or (js_or (r ''MeetDate'') (r ''meet_date'')) (r ''date'')) (r ''meetdate'')));
          equipment = or_empty (js_or (js_or (r ''Equipment'') (r ''equipment'')) (r ''Gear''));
          federation = or_empty (js_or (r ''Federation'') (r ''federation''));
          age = toNumber (js_or (r ''Age'') (r ''age''));
          bodyweightKg = toNumber
            (js_or (js_or (js_or (r ''BodyweightKg'') (r ''bodyweight'')) (r ''bodywt'')) (r ''weight''));
          squatKg = toNumber
            (js_or (js_or (js_or (r ''SquatKg'') (r ''squat'')) (r ''best3sqkg'')) (r ''best3sq''));
          benchKg = toNumber
            (js_or (js_or (js_or (r ''BenchKg'') (r ''bench'')) (r ''best3bnkg'')) (r ''best3bn''));
          deadliftKg = toNumber
            (js_or (js_or (js_or (r ''DeadliftKg'') (r ''deadlift'')) (r ''best3dlkg'')) (r ''best3dl''));
          totalKg = toNumber (js_or (js_or (r ''TotalKg'') (r ''total'')) (r ''totalkg''))
      in \<lparr>Name = name, NameNormalized = nameNormalized, MeetDate = meetDate,
          Equipment = equipment, Federation = federation, Age = age,
          BodyweightKg = bodyweightKg, SquatKg = squatKg, BenchKg = benchKg,
          DeadliftKg = deadliftKg, TotalKg = totalKg,
          SquatLb = toLb squatKg, BenchLb = toLb benchKg,
          DeadliftLb = toLb deadliftKg, TotalLb = toLb totalKg\<rparr>)"

text \<open>\<^verbatim>\<open>return rows.map(r => { ... })\<close>.\<close>

definition processCsvData :: "(string \<Rightarrow> int option) \<Rightarrow> row list \<Rightarrow> LifterRecord list" where
  "processCsvData F rows = map (processRow F) rows"

section \<open>App: filtered and traces\<close>

datatype equipment_filter = All | Raw | Equipped

datatype lift = Squat | Bench | Deadlift | Total

datatype units = kg | lb

text \<open>\<^verbatim>\<open>(r.Equipment || '').toLowerCase().includes('raw')\<close>.\<close>

definition is_raw :: "LifterRecord \<Rightarrow> bool" where
  "is_raw r = str_includes (toLowerCase (Equipment r)) ''raw''"

text \<open>
  The comparator \<^verbatim>\<open>(a,b) => new Date(a.MeetDate) - new Date(b.MeetDate)\<close>. The difference of
  two time values is NaN when one of them is, and \<^verbatim>\<open>sort\<close> reads a NaN as \<open>0\<close>. Time values
  are integers, so the rounding of the difference to a double keeps its sign: the
  comparator is given by the exact difference.
\<close>

definition date_cmp :: "(string \<Rightarrow> int option) \<Rightarrow> LifterRecord \<Rightarrow> LifterRecord \<Rightarrow> int" where
  "date_cmp F a b =
     (case (new_Date F (MeetDate a), new_Date F (MeetDate b)) of
        (Some x, Some y) \<Rightarrow> x - y
      | _ \<Rightarrow> 0)"

text \<open>
  \<^verbatim>\<open>Array.prototype.sort\<close> with a comparator, as a stable insertion sort: an element moves
  behind a later one only when the comparator is positive on the pair. With a consistent
  comparator every stable sort gives this result; with an inconsistent one (here: an
  unparsable date among the records) the standard leaves the order to the engine.
\<close>

fun insert_cmp :: "('a \<Rightarrow> 'a \<Rightarrow> int) \<Rightarrow> 'a \<Rightarrow> 'a list \<Rightarrow> 'a list" where
  "insert_cmp c x [] = [x]"
| "insert_cmp c x (y # ys) = (if 0 < c x y then y # insert_cmp c x ys else x # y # ys)"

definition array_sort :: "('a \<Rightarrow> 'a \<Rightarrow> int) \<Rightarrow> 'a list \<Rightarrow> 'a list" where
  "array_sort c xs = foldr (insert_cmp c) xs []"

text \<open>
  The memo \<^verbatim>\<open>filtered\<close>, as a function of the state it reads: \<^verbatim>\<open>rows\<close>, \<^verbatim>\<open>selected\<close> and
  \<^verbatim>\<open>equipment\<close>. \<^verbatim>\<open>filter\<close> builds a new array, so the sort in place leaves \<^verbatim>\<open>rows\<close> alone.
\<close>

definition filtered ::
  "(string \<Rightarrow> int option) \<Rightarrow> LifterRecord list \<Rightarrow> string \<Rightarrow> equipment_filter \<Rightarrow> LifterRecord list" where
  "filtered F rows selected equipment =
     (if selected = [] then []
      else let arr = filter (\<lambda>r. Name r = selected) rows;
               arr' = (if equipment \<noteq> All
                       then (if equipment = Raw then filter (\<lambda>r. is_raw r) arr
                             else filter (\<lambda>r. \<not> is_raw r) arr)
                       else arr)
           in array_sort (date_cmp F) arr')"

text \<open>
  The state \<^verbatim>\<open>lifts\<close> is an object with the keys Squat, Bench, Deadlift, Total in this
  order; \<^verbatim>\<open>Object.entries(lifts).filter(([k,v]) => v).map(([k]) => k)\<close> lists the keys
  that are switched on.
\<close>

definition active :: "(lift \<Rightarrow> bool) \<Rightarrow> lift list" where
  "active lifts = map fst (filter snd (map (\<lambda>k. (k, lifts k)) [Squat, Bench, Deadlift, Total]))"

text \<open>\<^verbatim>\<open>r[lift + unitSuffix]\<close> with \<^verbatim>\<open>unitSuffix = unit === 'kg' ? 'Kg' : 'Lb'\<close>.\<close>

fun lift_field :: "lift \<Rightarrow> units \<Rightarrow> LifterRecord \<Rightarrow> jsnum option" where
  "lift_field Squat kg = SquatKg"
| "lift_field Squat lb = SquatLb"
| "lift_field Bench kg = BenchKg"
| "lift_field Bench lb = BenchLb"
| "lift_field Deadlift kg = DeadliftKg"
| "lift_field Deadlift lb = DeadliftLb"
| "lift_field Total kg = TotalKg"
| "lift_field Total lb = TotalLb"

record trace =
  trace_x :: "string option list"
  trace_y :: "jsnum option list"
  trace_type :: string
  trace_mode :: string
  trace_name :: lift

text \<open>The memo \<^verbatim>\<open>traces\<close>, as a function of \<^verbatim>\<open>filtered\<close>, \<^verbatim>\<open>lifts\<close> and \<^verbatim>\<open>unit\<close>.\<close>

definition traces :: "LifterRecord list \<Rightarrow> (lift \<Rightarrow> bool) \<Rightarrow> units \<Rightarrow> trace list" where
  "traces filt lifts unit =
     map (\<lambda>l. \<lparr>trace_x = map MeetDate filt, trace_y = map (lift_field l unit) filt,
               trace_type = ''scatter'', trace_mode = ''lines+markers'', trace_name = l\<rparr>)
         (active lifts)"

section \<open>Notions the statements use\<close>

text \<open>
  The equipment filter as a predicate on a record: \<^verbatim>\<open>Raw\<close> keeps a record whose equipment
  label, lowercased, has \<^verbatim>\<open>raw\<close> as a contiguous block; \<^verbatim>\<open>Equipped\<close> keeps the others.
\<close>

definition keeps :: "equipment_filter \<Rightarrow> LifterRecord \<Rightarrow> bool" where
  "keeps e r =
     (case e of
        All \<Rightarrow> True
      | Raw \<Rightarrow> sublist ''raw'' (toLowerCase (Equipment r))
      | Equipped \<Rightarrow> \<not> sublist ''raw'' (toLowerCase (Equipment r)))"

text \<open>A record whose date field \<^verbatim>\<open>new Date\<close> can read: \<^verbatim>\<open>null\<close>, or a string that parses.\<close>

definition valid_date :: "(string \<Rightarrow> int option) \<Rightarrow> LifterRecord \<Rightarrow> bool" where
  "valid_date F r = (new_Date F (MeetDate r) \<noteq> None)"

text \<open>The time value the comparator gives a record.\<close>

definition time_value :: "(string \<Rightarrow> int option) \<Rightarrow> LifterRecord \<Rightarrow> int" where
  "time_value F r = (case new_Date F (MeetDate r) of Some t \<Rightarrow> t | None \<Rightarrow> 0)"

text \<open>
  Rounding a Number to two decimal places: for a finite \<open>x\<close> below \<open>10^21\<close> in magnitude,
  the double nearest to \<open>n / 100\<close>, where \<open>n\<close> is the integer nearest to \<open>100 * \<bar>x\<bar>\<close> (the
  larger one of two), with the sign of \<open>x\<close>; every other Number is left as it is.
\<close>

definition round_2dp :: "jsnum \<Rightarrow> jsnum" where
  "round_2dp x =
     (case x of
        Fin q \<Rightarrow>
          (if 10 ^ 21 \<le> \<bar>q\<bar> then x
           else let v = round_double (of_int \<lfloor>\<bar>q\<bar> * 100 + 1 / 2\<rfloor> / 100)
                in if q < 0 then fneg v else v)
      | _ \<Rightarrow> x)"

text \<open>A series without points, as \<^verbatim>\<open>traces\<close> builds it for a lift.\<close>

definition empty_trace :: "lift \<Rightarrow> trace" where
  "empty_trace l = \<lparr>trace_x = [], trace_y = [], trace_type = ''scatter'',
                     trace_mode = ''lines+markers'', trace_name = l\<rparr>"

text \<open>
  Alias resolution as the specification words it: the value of the first alias that is
  present with a value other than \<^verbatim>\<open>undefined\<close>.
\<close>

fun first_defined :: "row \<Rightarrow> string list \<Rightarrow> jsval" where
  "first_defined r [] = Undefined"
| "first_defined r (k # ks) = (if r k \<noteq> Undefined then r k else first_defined r ks)"

text \<open>The first alias whose value is truthy, that is, a non-empty string.\<close>

fun first_truthy :: "row \<Rightarrow> string list \<Rightarrow> string option" where
  "first_truthy r [] = None"
| "first_truthy r (k # ks) =
     (case r k of
        Str s \<Rightarrow> (if s \<noteq> [] then Some s else first_truthy r ks)
      | _ \<Rightarrow> first_truthy r ks)"

text \<open>
  A numeric field \<open>v\<close> resolved over the aliases \<open>ks\<close>: the first truthy alias is
  converted, and a field none of whose aliases is present is \<^verbatim>\<open>null\<close>.
\<close>

definition resolved_number :: "row \<Rightarrow> string list \<Rightarrow> jsnum option \<Rightarrow> bool" where
  "resolved_number r ks v =
     ((case first_truthy r ks of Some s \<Rightarrow> v = toNumber (Str s) | None \<Rightarrow> True)
      \<and> (list_all (\<lambda>k. r k = Undefined) ks \<longrightarrow> v = None))"

text \<open>A string field resolved over its aliases: the first truthy alias, else \<^verbatim>\<open>''\<close>.\<close>

definition resolved_string :: "row \<Rightarrow> string list \<Rightarrow> string" where
  "resolved_string r ks = (case first_truthy r ks of Some s \<Rightarrow> s | None \<Rightarrow> [])"

section \<open>Example inputs\<close>

text \<open>An engine whose \<^verbatim>\<open>Date\<close> accepts nothing beyond the standard date-only form.\<close>

definition no_heuristics :: "string \<Rightarrow> int option" where
  "no_heuristics s = None"

text \<open>The rows \<^verbatim>\<open>{Name:"Jane Doe", SquatKg:"100", MeetDate:"2020-01-05"}\<close> and \<^verbatim>\<open>{Name:"", SquatKg:"bad"}\<close>.\<close>

definition row_jane :: row where
  "row_jane = empty_row(''Name'' := Str ''Jane Doe'', ''SquatKg'' := Str ''100'',
                        ''MeetDate'' := Str ''2020-01-05'')"

definition row_bad :: row where
  "row_bad = empty_row(''Name'' := Str [], ''SquatKg'' := Str ''bad'')"

text \<open>The initial state \<^verbatim>\<open>{ Squat: true, Bench: true, Deadlift: true, Total: false }\<close>.\<close>

definition initial_lifts :: "lift \<Rightarrow> bool" where
  "initial_lifts l = (l \<noteq> Total)"

text \<open>
  Four rows: three meets of Ann (one without a date, one before 1970) and one of Bob.
\<close>

definition sample_rows :: "row list" where
  "sample_rows =
     [empty_row(''Name'' := Str ''Ann'', ''MeetDate'' := Str ''1970-01-02'',
                ''Equipment'' := Str ''Raw'', ''SquatKg'' := Str ''100''),
      empty_row(''Name'' := Str ''Ann'', ''Equipment'' := Str ''Single-ply'',
                ''SquatKg'' := Str ''120''),
      empty_row(''Name'' := Str ''Ann'', ''MeetDate'' := Str ''1969-12-31'',
                ''Equipment'' := Str ''RAW+Wraps'', ''SquatKg'' := Str ''90''),
      empty_row(''Name'' := Str ''Bob'', ''MeetDate'' := Str ''2020-01-05'',
                ''Equipment'' := Str ''Raw'', ''SquatKg'' := Str ''200'')]"

definition sample_records :: "LifterRecord list" where
  "sample_records = processCsvData no_heuristics sample_rows"

text \<open>The state in which every lift is switched off.\<close>

definition no_lifts :: "lift \<Rightarrow> bool" where
  "no_lifts l = False"

text \<open>A row with an empty cell under the first alias of the name and of the squat.\<close>

definition row_alias :: row where
  "row_alias = empty_row(''Name'' := Str [], ''name'' := Str ''Bob'',
                         ''SquatKg'' := Str [], ''best3sqkg'' := Str ''150.5'')"

section \<open>Evaluation lemmas\<close>

lemma toNumber_bad: "toNumber (Str ''bad'') = Some (Fin 0)"
  by code_simp

text \<open>A cell without a digit, a point or a minus sign is read as \<open>0\<close>.\<close>

lemma toNumber_no_numeric_char:
  assumes "\<forall>c\<in>set s. \<not> num_char c"
  shows "toNumber (Str s) = Some (Fin 0)"
proof -
  have "filter num_char s = []"
    using assms by (simp add: filter_empty_conv)
  then show ?thesis
    by (simp add: Number_str_def)
qed

lemma toNumber_lone_minus: "toNumber (Str ''-'') = None"
  by code_simp

lemma toLb_zero: "toLb (Some (Fin 0)) = Some (Fin 0)"
  by code_simp

lemma row_bad_SquatKg: "SquatKg (processRow F row_bad) = Some (Fin 0)"
  by (simp add: processRow_def row_bad_def empty_row_def js_or_def Let_def toNumber_bad
      del: toNumber.simps)

lemma row_bad_SquatLb: "SquatLb (processRow F row_bad) = Some (Fin 0)"
  by (simp add: processRow_def row_bad_def empty_row_def js_or_def Let_def toNumber_bad
      toLb_zero del: toNumber.simps toLb.simps)

section \<open>Lemmas on the sort and the filters\<close>

lemma starts_with_prefix: "starts_with s sub = prefix sub s"
  by (induction s sub rule: starts_with.induct) auto

lemma str_includes_sublist: "str_includes s sub = sublist sub s"
proof (induction s)
  case Nil
  then show ?case by auto
next
  case (Cons d ds)
  then show ?case
    by (simp add: starts_with_prefix sublist_Cons_right del: starts_with.simps)
qed

lemma is_raw_sublist: "is_raw r = sublist ''raw'' (toLowerCase (Equipment r))"
  by (simp add: is_raw_def str_includes_sublist)

lemma mset_insert_cmp: "mset (insert_cmp c x ys) = add_mset x (mset ys)"
  by (induction ys) auto

lemma mset_array_sort: "mset (array_sort c xs) = mset xs"
  by (induction xs) (auto simp: array_sort_def mset_insert_cmp)

lemma set_insert_cmp: "set (insert_cmp c x ys) = insert x (set ys)"
  using mset_insert_cmp [of c x ys, THEN arg_cong, of set_mset] by simp

text \<open>
  Inserting into a list sorted by a key \<open>k\<close> keeps it sorted, when the comparator is
  positive on \<open>(x, y)\<close> exactly if the key of \<open>x\<close> is the greater one.
\<close>

lemma sorted_insert_cmp:
  fixes k :: "'a \<Rightarrow> int"
  assumes "\<forall>y\<in>set ys. (0 < c x y) = (k y < k x)"
    and "sorted_wrt (\<lambda>a b. k a \<le> k b) ys"
  shows "sorted_wrt (\<lambda>a b. k a \<le> k b) (insert_cmp c x ys)"
  using assms
proof (induction ys)
  case Nil
  then show ?case by simp
next
  case (Cons y ys)
  show ?case
  proof (cases "0 < c x y")
    case True
    with Cons.prems have "k y < k x" by simp
    moreover have "sorted_wrt (\<lambda>a b. k a \<le> k b) (insert_cmp c x ys)"
      using Cons by simp
    ultimately show ?thesis
      using True Cons.prems by (auto simp: set_insert_cmp)
  next
    case False
    with Cons.prems have "k x \<le> k y" by auto
    then show ?thesis
      using False Cons.prems by auto
  qed
qed

lemma sorted_array_sort:
  fixes k :: "'a \<Rightarrow> int"
  assumes "\<forall>x\<in>set xs. \<forall>y\<in>set xs. (0 < c x y) = (k y < k x)"
  shows "sorted_wrt (\<lambda>a b. k a \<le> k b) (array_sort c xs)"
  using assms
proof (induction xs)
  case Nil
  then show ?case by (simp add: array_sort_def)
next
  case (Cons x xs)
  have s: "set (array_sort c xs) = set xs"
    using mset_array_sort [of c xs, THEN arg_cong, of set_mset] by simp
  have "sorted_wrt (\<lambda>a b. k a \<le> k b) (array_sort c xs)"
    using Cons by simp
  moreover have "\<forall>y\<in>set (array_sort c xs). (0 < c x y) = (k y < k x)"
    using Cons.prems s by simp
  ultimately have "sorted_wrt (\<lambda>a b. k a \<le> k b) (insert_cmp c x (array_sort c xs))"
    by (rule sorted_insert_cmp [rotated])
  then show ?case by (simp add: array_sort_def)
qed

lemma date_cmp_valid:
  assumes "valid_date F a" and "valid_date F b"
  shows "date_cmp F a b = time_value F a - time_value F b"
  using assms by (auto simp: valid_date_def date_cmp_def time_value_def)

lemma filtered_mset:
  assumes "selected \<noteq> []"
  shows "mset (filtered F rows selected e)
         = mset (filter (\<lambda>r. Name r = selected \<and> keeps e r) rows)"
  using assms
  by (cases e) (simp_all add: filtered_def mset_array_sort keeps_def is_raw_sublist Let_def)

lemma filtered_sorted:
  assumes "\<forall>r\<in>set rows. valid_date F r"
  shows "sorted_wrt (\<lambda>a b. time_value F a \<le> time_value F b) (filtered F rows selected e)"
proof (cases "selected = []")
  case True
  then show ?thesis by (simp add: filtered_def)
next
  case False
  have "sorted_wrt (\<lambda>a b. time_value F a \<le> time_value F b) (array_sort (date_cmp F) xs)"
    if "set xs \<subseteq> set rows" for xs
  proof (rule sorted_array_sort, intro ballI)
    fix x y
    assume "x \<in> set xs" and "y \<in> set xs"
    with that assms have "valid_date F x" and "valid_date F y" by auto
    then show "(0 < date_cmp F x y) = (time_value F y < time_value F x)"
      by (simp add: date_cmp_valid)
  qed
  then show ?thesis
    using False by (cases e) (simp_all add: filtered_def Let_def)
qed

subsection \<open>The sample records, evaluated\<close>

lemma sample_records_valid: "\<forall>r\<in>set sample_records. valid_date no_heuristics r"
  by code_simp

lemma sample_ann_all:
  "map (\<lambda>r. (MeetDate r, Equipment r)) (filtered no_heuristics sample_records ''Ann'' All)
   = [(Some ''1969-12-31'', ''RAW+Wraps''), (None, ''Single-ply''), (Some ''1970-01-02'', ''Raw'')]"
  by code_simp

lemma sample_ann_raw:
  "map (\<lambda>r. (MeetDate r, Equipment r)) (filtered no_heuristics sample_records ''Ann'' Raw)
   = [(Some ''1969-12-31'', ''RAW+Wraps''), (Some ''1970-01-02'', ''Raw'')]"
  by code_simp

lemma sample_ann_equipped:
  "map (\<lambda>r. (MeetDate r, Equipment r)) (filtered no_heuristics sample_records ''Ann'' Equipped)
   = [(None, ''Single-ply'')]"
  by code_simp

lemma sample_dates:
  "Date_parse no_heuristics ''1969-12-31'' = Some (- 86400000)
   \<and> Date_parse no_heuristics ''1970-01-02'' = Some 86400000"
  by code_simp

section \<open>Lemmas on the alias chains\<close>

lemma or_empty_chain2: "or_empty (js_or (r a) (r b)) = resolved_string r [a, b]"
  by (auto simp: resolved_string_def js_or_def split: jsval.splits)

lemma or_empty_chain3: "or_empty (js_or (js_or (r a) (r b)) (r c)) = resolved_string r [a, b, c]"
  by (auto simp: resolved_string_def js_or_def split: jsval.splits)

lemma toNumber_chain2: "resolved_number r [a, b] (toNumber (js_or (r a) (r b)))"
  by (auto simp: resolved_number_def js_or_def simp del: toNumber.simps(3) split: jsval.splits)

lemma toNumber_chain3:
  "resolved_number r [a, b, c] (toNumber (js_or (js_or (r a) (r b)) (r c)))"
  by (auto simp: resolved_number_def js_or_def simp del: toNumber.simps(3) split: jsval.splits)

lemma toNumber_chain4:
  "resolved_number r [a, b, c, d] (toNumber (js_or (js_or (js_or (r a) (r b)) (r c)) (r d)))"
  by (auto simp: resolved_number_def js_or_def simp del: toNumber.simps(3) split: jsval.splits)

lemma parseDate_empty: "parseDate F (Str []) = None"
  by simp

lemma parseDate_chain4:
  "or_null (parseDate F (js_or (js_or (js_or (r a) (r b)) (r c)) (r d)))
   = (case first_truthy r [a, b, c, d] of
        Some s \<Rightarrow> or_null (parseDate F (Str s)) | None \<Rightarrow> None)"
  by (auto simp: js_or_def parseDate_empty simp del: parseDate.simps(1) split: jsval.splits)

section \<open>Lemmas on numbers and their strings\<close>

subsection \<open>The string of toFixed(2) read back\<close>

lemma is_digit_char_of: "d < 10 \<Longrightarrow> is_digit (char_of (48 + d :: nat))"
  by (simp add: is_digit_def code_def) 

lemma digit_val_char_of: "d < 10 \<Longrightarrow> digit_val (char_of (48 + d :: nat)) = int d"
  by (simp add: digit_val_def code_def)

lemma digits_val_snoc: "digits_val (s @ [c]) = 10 * digits_val s + digit_val c"
  by (simp add: digits_val_def)

lemma dec_digits_small: "n < 10 \<Longrightarrow> dec_digits n = [char_of (48 + nat n)]"
  by (subst dec_digits.simps) simp

lemma dec_digits_large:
  "\<not> n < 10 \<Longrightarrow> dec_digits n = dec_digits (n div 10) @ [char_of (48 + nat (n mod 10))]"
  by (subst dec_digits.simps) simp

lemma dec_digits_digits: "0 \<le> n \<Longrightarrow> list_all is_digit (dec_digits n)"
proof (induction n rule: dec_digits.induct)
  case (1 n)
  show ?case
  proof (cases "n < 10")
    case True
    with 1 show ?thesis by (simp add: dec_digits_small is_digit_char_of)
  next
    case False
    with 1 show ?thesis
      by (simp add: dec_digits_large is_digit_char_of)
  qed
qed

lemma digits_val_dec_digits: "0 \<le> n \<Longrightarrow> digits_val (dec_digits n) = n"
proof (induction n rule: dec_digits.induct)
  case (1 n)
  show ?case
  proof (cases "n < 10")
    case True
    with 1 show ?thesis by (simp add: dec_digits_small digits_val_def digit_val_char_of)
  next
    case False
    with 1 show ?thesis
      by (simp add: dec_digits_large digits_val_snoc digit_val_char_of)
  qed
qed

lemma dec_digits_nonempty: "dec_digits n \<noteq> []"
  by (subst dec_digits.simps) simp

lemma digits_val_zeros: "digits_val (replicate z CHR ''0'' @ s) = digits_val s"
proof -
  have "foldl (\<lambda>n c. 10 * n + digit_val c) 0 (replicate z CHR ''0'') = 0"
    by (induction z) (simp_all add: digit_val_def code_def)
  then show ?thesis by (simp add: digits_val_def)
qed

lemma str_unsigned_point:
  assumes "list_all is_digit ip" and "list_all is_digit fp" and "ip \<noteq> []"
  shows "str_unsigned (ip @ ''.'' @ fp) = Some (of_int (digits_val (ip @ fp)) / of_int (10 ^ length fp))"
proof -
  have nd: "\<not> is_digit CHR ''.''" by (simp add: is_digit_def code_def)
  have "takeWhile is_digit (ip @ ''.'' @ fp) = ip"
    using assms(1) nd by (simp add: list_all_iff)
  moreover have "dropWhile is_digit (ip @ ''.'' @ fp) = ''.'' @ fp"
    using assms(1) nd by (simp add: list_all_iff)
  ultimately show ?thesis
    using assms by (simp add: str_unsigned_def)
qed

text \<open>The string of \<^verbatim>\<open>toFixed(2)\<close> reads back as the hundredths it spells.\<close>

lemma Number_str_fixed:
  assumes "0 \<le> n"
  defines "m \<equiv> replicate (3 - length (dec_digits n)) CHR ''0'' @ dec_digits n"
  shows "Number_str (take (length m - 2) m @ ''.'' @ drop (length m - 2) m)
         = round_double (of_int n / 100)"
    and "Number_str (''-'' @ take (length m - 2) m @ ''.'' @ drop (length m - 2) m)
         = fneg (round_double (of_int n / 100))"
proof -
  let ?ip = "take (length m - 2) m" and ?fp = "drop (length m - 2) m"
  have dig: "list_all is_digit m"
    using dec_digits_digits [OF assms(1)] by (auto simp: m_def is_digit_def code_def list_all_iff)
  have len: "3 \<le> length m"
    by (simp add: m_def)
  have val: "digits_val m = n"
    by (simp add: m_def digits_val_zeros digits_val_dec_digits [OF assms(1)])
  have ip: "list_all is_digit ?ip" and fp: "list_all is_digit ?fp"
    using dig by (auto simp: list_all_iff dest: in_set_takeD in_set_dropD)
  have ne: "?ip \<noteq> []" and lfp: "length ?fp = 2"
    using len by auto
  have u: "str_unsigned (?ip @ ''.'' @ ?fp) = Some (of_int n / 100)"
    using str_unsigned_point [OF ip fp ne] val lfp by simp
  obtain c cs where c: "?ip = c # cs"
    using ne by (cases ?ip) auto
  then have "is_digit c"
    using ip by simp
  then have "c \<noteq> CHR ''-''"
    by (auto simp: is_digit_def code_def)
  then show "Number_str (?ip @ ''.'' @ ?fp) = round_double (of_int n / 100)"
    using u c by (simp add: Number_str_def)
  show "Number_str (''-'' @ ?ip @ ''.'' @ ?fp) = fneg (round_double (of_int n / 100))"
    using u by (simp add: Number_str_def)
qed

lemma unary_plus_toFixed2: "unary_plus (toFixed2 x) = round_2dp x"
proof (cases x)
  case (Fin q)
  show ?thesis
  proof (cases "10 ^ 21 \<le> \<bar>q\<bar>")
    case True
    then show ?thesis by (simp add: Fin toFixed2_def round_2dp_def)
  next
    case False
    define n where "n = \<lfloor>\<bar>q\<bar> * 100 + 1 / 2\<rfloor>"
    define m where "m = replicate (3 - length (dec_digits n)) CHR ''0'' @ dec_digits n"
    have n: "0 \<le> n"
      by (simp add: n_def)
    have tf: "toFixed2 (Fin q)
              = Digits ((if q < 0 then ''-'' else []) @ take (length m - 2) m @ ''.''
                        @ drop (length m - 2) m)"
      unfolding toFixed2_def Let_def n_def m_def using False
      by (simp only: jsnum.case if_False)
    have r: "round_2dp (Fin q)
             = (if q < 0 then fneg (round_double (of_int n / 100))
                else round_double (of_int n / 100))"
      using False by (simp add: round_2dp_def n_def Let_def)
    note fx = Number_str_fixed [OF n, folded m_def]
    show ?thesis
    proof (cases "q < 0")
      case True
      then show ?thesis
        unfolding Fin tf r using fx(2) by (simp only: if_True unary_plus.simps)
    next
      case False
      then show ?thesis
        unfolding Fin tf r using fx(1) by (simp only: if_False unary_plus.simps append_Nil)
    qed
  qed
qed (simp_all add: toFixed2_def round_2dp_def)

subsection \<open>When Number(string) is finite\<close>

lemma digit_val_range: "is_digit c \<Longrightarrow> 0 \<le> digit_val c \<and> digit_val c \<le> 9"
  by (auto simp: is_digit_def digit_val_def)

lemma foldl_digits_bound:
  assumes "list_all is_digit s" and "0 \<le> n"
  shows "0 \<le> foldl (\<lambda>n c. 10 * n + digit_val c) n s
       \<and> foldl (\<lambda>n c. 10 * n + digit_val c) n s < (n + 1) * 10 ^ length s"
  using assms
proof (induction s arbitrary: n)
  case Nil
  then show ?case by simp
next
  case (Cons c s)
  from Cons.prems have d: "0 \<le> digit_val c" "digit_val c \<le> 9"
    using digit_val_range [of c] by simp_all
  then have n': "0 \<le> 10 * n + digit_val c"
    using Cons.prems by simp
  from Cons.prems have "list_all is_digit s" by simp
  from Cons.IH [OF this n']
  have ih: "0 \<le> foldl (\<lambda>n c. 10 * n + digit_val c) (10 * n + digit_val c) s"
    "foldl (\<lambda>n c. 10 * n + digit_val c) (10 * n + digit_val c) s
       < (10 * n + digit_val c + 1) * 10 ^ length s"
    by simp_all
  have "(10 * n + digit_val c + 1) * 10 ^ length s \<le> (10 * n + 10) * 10 ^ length s"
    using d by (intro mult_right_mono) simp_all
  also have "\<dots> = (n + 1) * 10 ^ length (c # s)"
    by (simp add: algebra_simps)
  finally have "foldl (\<lambda>n c. 10 * n + digit_val c) (10 * n + digit_val c) s
                < (n + 1) * 10 ^ length (c # s)"
    using ih(2) by (rule less_le_trans [rotated])
  then show ?case
    using ih(1) by simp
qed

lemma digits_val_bound:
  "list_all is_digit s \<Longrightarrow> 0 \<le> digits_val s \<and> digits_val s < 10 ^ length s"
  using foldl_digits_bound [of s 0] by (simp add: digits_val_def)

lemma str_unsigned_bound:
  assumes "str_unsigned s = Some q"
  shows "0 \<le> q \<and> q < 10 ^ length s"
proof -
  let ?ip = "takeWhile is_digit s" and ?rest = "dropWhile is_digit s"
  have ipd: "list_all is_digit ?ip"
    by (auto simp: list_all_iff dest: set_takeWhileD)
  have split: "s = ?ip @ ?rest" by simp
  show ?thesis
  proof (cases ?rest)
    case Nil
    with assms have q: "q = of_int (digits_val ?ip)"
      by (simp add: str_unsigned_def Let_def split: if_splits)
    have "length ?ip \<le> length s"
      by (rule length_takeWhile_le)
    then have p: "(10::int) ^ length ?ip \<le> 10 ^ length s"
      by (intro power_increasing) simp_all
    have b0: "0 \<le> digits_val ?ip" and b1: "digits_val ?ip < 10 ^ length ?ip"
      using digits_val_bound [OF ipd] by blast+
    have "digits_val ?ip < 10 ^ length s"
      using b1 p by (rule less_le_trans)
    with b0 have "0 \<le> (of_int (digits_val ?ip) :: rat)"
      and "(of_int (digits_val ?ip) :: rat) < of_int (10 ^ length s)"
      by (simp_all only: of_int_0_le_iff of_int_less_iff)
    then show ?thesis
      by (simp add: q)
  next
    case (Cons c fp)
    with assms have fpd: "list_all is_digit fp"
      and q: "q = of_int (digits_val (?ip @ fp)) / of_int (10 ^ length fp)"
      by (simp_all add: str_unsigned_def Let_def split: if_splits)
    have len: "length s = length ?ip + Suc (length fp)"
      using split Cons by (metis length_append length_Cons)
    have "list_all is_digit (?ip @ fp)"
      using ipd fpd by simp
    from digits_val_bound [OF this]
    have b: "0 \<le> digits_val (?ip @ fp)" "digits_val (?ip @ fp) < 10 ^ (length ?ip + length fp)"
      by simp_all
    have "(10::int) ^ (length ?ip + length fp) \<le> 10 ^ length s"
      unfolding len by (intro power_increasing) simp_all
    with b(2) have b2: "digits_val (?ip @ fp) < 10 ^ length s"
      by (rule less_le_trans)
    have pos: "(0::rat) < of_int (10 ^ length fp)" by simp
    have ge1: "(1::rat) \<le> of_int (10 ^ length fp)"
      by simp
    have q0: "0 \<le> q"
      unfolding q using b(1) by simp
    have q1: "q \<le> of_int (digits_val (?ip @ fp))"
    proof -
      have "of_int (digits_val (?ip @ fp)) / of_int (10 ^ length fp)
            \<le> (of_int (digits_val (?ip @ fp)) :: rat) / 1"
        using b(1) ge1 by (intro divide_left_mono) simp_all
      then show ?thesis by (simp add: q)
    qed
    have "(of_int (digits_val (?ip @ fp)) :: rat) < of_int (10 ^ length s)"
      using b2 by (simp only: of_int_less_iff)
    then have "(of_int (digits_val (?ip @ fp)) :: rat) < 10 ^ length s"
      by simp
    with q1 have "q < 10 ^ length s"
      by (rule le_less_trans)
    with q0 show ?thesis by blast
  qed
qed

lemma overflow_bound: "(10::rat) ^ 308 < of_int (2 ^ 1024 - 2 ^ 970)"
  by simp

lemma round_double_finite:
  assumes "\<bar>q\<bar> < of_int (2 ^ 1024 - 2 ^ 970)"
  shows "isFinite (round_double q)"
  using assms by (simp add: round_double_def del: of_int_diff of_int_power)

lemma isFinite_fneg: "isFinite (fneg x) = isFinite x"
  by (cases x) simp_all

lemma Number_str_finite:
  assumes "length s \<le> 308"
  shows "Number_str s = NaN \<or> isFinite (Number_str s)"
proof -
  have fin: "isFinite (round_double q)" if "str_unsigned t = Some q" and "length t \<le> 308" for t q
  proof -
    from str_unsigned_bound [OF that(1)] have "0 \<le> q" "q < 10 ^ length t" by simp_all
    moreover have "(10::rat) ^ length t \<le> 10 ^ 308"
      using that(2) by (intro power_increasing) simp_all
    ultimately have "\<bar>q\<bar> < of_int (2 ^ 1024 - 2 ^ 970)"
      using overflow_bound by linarith
    then show ?thesis by (rule round_double_finite)
  qed
  show ?thesis
  proof (cases s)
    case Nil
    then show ?thesis by (simp add: Number_str_def)
  next
    case (Cons c cs)
    then have "length cs \<le> 308" using assms by simp
    with fin [of cs] fin [of s] assms Cons show ?thesis
      by (auto simp: Number_str_def isFinite_fneg split: option.splits)
  qed
qed

lemma toNumber_finite:
  assumes "length (filter num_char s) \<le> 308"
  shows "toNumber (Str s) = None \<or> (\<exists>n. toNumber (Str s) = Some n \<and> isFinite n)"
  using Number_str_finite [OF assms] by (auto simp: Let_def)

lemma toLb_round_2dp: "toLb k = map_option (\<lambda>x. round_2dp (fmul x KG_TO_LB)) k"
  by (cases k) (simp_all add: unary_plus_toFixed2)

lemma toNumber_100: "toNumber (Str ''100'') = Some (Fin 100)"
  by code_simp

lemma round_2dp_100_kg: "round_2dp (fmul (Fin 100) KG_TO_LB) = round_double (22046 / 100)"
  by code_simp

text \<open>
  The product is the double product: \<open>250 * 2.20462\<close> is the double just below \<open>551.155\<close>,
  and its rounding to two places is \<open>551.15\<close>.
\<close>

lemma round_2dp_250_kg: "round_2dp (fmul (Fin 250) KG_TO_LB) = round_double (55115 / 100)"
  by code_simp

section \<open>The claims\<close>

subsection \<open>C1: toNumber on a cell without digits\<close>

text \<open>
  C1. \<^verbatim>\<open>toNumber\<close> deletes every character that is not a digit, a point or a minus sign and
  parses the rest; the claim is that it returns \<^verbatim>\<open>null\<close> whenever the rest is empty or not
  a number, and that the row \<^verbatim>\<open>{Name:"", SquatKg:"bad"}\<close> gets \<^verbatim>\<open>SquatKg = null\<close> and
  \<^verbatim>\<open>SquatLb = null\<close>. The code returns \<^verbatim>\<open>null\<close> for a lone minus sign, but for a cell that
  keeps no character, such as \<^verbatim>\<open>"bad"\<close>, \<^verbatim>\<open>Number('')\<close> is \<open>0\<close>, not NaN: \<^verbatim>\<open>toNumber\<close>
  returns \<open>0\<close>, and the row gets \<^verbatim>\<open>SquatKg = 0\<close> and \<^verbatim>\<open>SquatLb = 0\<close>.
\<close>

theorem toNumber_bad_is_zero:
  "toNumber (Str ''-'') = None
   \<and> toNumber (Str ''bad'') = Some (Fin 0)
   \<and> SquatKg (processRow F row_bad) = Some (Fin 0)
   \<and> SquatLb (processRow F row_bad) = Some (Fin 0)"
  by (simp only: toNumber_bad toNumber_lone_minus row_bad_SquatKg row_bad_SquatLb simp_thms)

subsection \<open>C2: the pound fields are derived from the kilogram fields\<close>

text \<open>
  C2. In every record that ingestion produces, and for each of the lifts Squat, Bench,
  Deadlift and Total, the pound field is \<^verbatim>\<open>null\<close> exactly when the kilogram field is, and
  otherwise it is the kilogram field times \<^verbatim>\<open>KG_TO_LB\<close> (the double product), rounded to
  two decimal places: \<^verbatim>\<open>+(x).toFixed(2)\<close> is the rounding \<open>round_2dp\<close>. The arithmetic is
  that of doubles: for 100 kg the field is the double nearest to \<open>220.46\<close>.
\<close>

theorem pounds_derived_from_kilograms:
  assumes "rec \<in> set (processCsvData F rows)"
  shows "lift_field l lb rec
           = map_option (\<lambda>k. round_2dp (fmul k KG_TO_LB)) (lift_field l kg rec)
       \<and> (lift_field l lb rec = None) = (lift_field l kg rec = None)"
proof -
  from assms obtain r where rec: "rec = processRow F r"
    by (auto simp: processCsvData_def)
  have "lift_field l lb rec = toLb (lift_field l kg rec)"
    unfolding rec by (cases l) (simp_all add: processRow_def Let_def)
  then show ?thesis
    by (simp add: toLb_round_2dp)
qed

theorem pounds_derived_from_kilograms_witness:
  "processRow no_heuristics row_jane \<in> set (processCsvData no_heuristics [row_jane, row_bad])
   \<and> SquatKg (processRow no_heuristics row_jane) = Some (Fin 100)
   \<and> SquatLb (processRow no_heuristics row_jane) = Some (round_2dp (fmul (Fin 100) KG_TO_LB))
   \<and> round_2dp (fmul (Fin 100) KG_TO_LB) = round_double (22046 / 100)
   \<and> BenchKg (processRow no_heuristics row_jane) = None
   \<and> BenchLb (processRow no_heuristics row_jane) = None"
proof -
  let ?rec = "processRow no_heuristics row_jane"
  have m: "?rec \<in> set (processCsvData no_heuristics [row_jane, row_bad])"
    by (simp add: processCsvData_def)
  have s: "SquatKg ?rec = Some (Fin 100)"
    by (simp add: processRow_def row_jane_def empty_row_def js_or_def Let_def toNumber_100
        del: toNumber.simps)
  have b: "BenchKg ?rec = None"
    by (simp add: processRow_def row_jane_def empty_row_def js_or_def Let_def)
  show ?thesis
    using m s b round_2dp_100_kg
      pounds_derived_from_kilograms [OF m, of Squat]
      pounds_derived_from_kilograms [OF m, of Bench]
    by simp
qed

subsection \<open>C3: alias resolution takes the first truthy alias\<close>

text \<open>
  C3. The claim is that every field takes the first alias that is present with a value
  other than \<^verbatim>\<open>undefined\<close>, so that an empty string under an earlier alias is taken. The
  code chains the aliases with \<^verbatim>\<open>||\<close>, which passes over every falsy value: in the row
  \<^verbatim>\<open>{Name:"", name:"Bob"}\<close> the first alias present is \<^verbatim>\<open>Name\<close>, with the value \<^verbatim>\<open>""\<close>, and
  the record gets the name \<^verbatim>\<open>"Bob"\<close>.
\<close>

theorem alias_first_defined_counterexample:
  "first_defined row_alias [''Name'', ''name'', ''lifter''] = Str []
   \<and> Name (processRow no_heuristics row_alias) = ''Bob''"
  by (simp add: row_alias_def empty_row_def processRow_def js_or_def Let_def)

text \<open>
  C3, amended. Every field takes the first alias whose value is truthy (present and not
  the empty string), so an empty string under an earlier alias is passed over. A text
  field without a truthy alias is \<^verbatim>\<open>''\<close>, the date is \<^verbatim>\<open>null\<close> then, and a numeric field
  none of whose aliases is present is \<^verbatim>\<open>null\<close>. \<^verbatim>\<open>processRow\<close> is a total function: no row
  makes it raise.
\<close>

theorem processRow_alias_resolution:
  "Name (processRow F r) = resolved_string r [''Name'', ''name'', ''lifter'']
   \<and> Equipment (processRow F r) = resolved_string r [''Equipment'', ''equipment'', ''Gear'']
   \<and> Federation (processRow F r) = resolved_string r [''Federation'', ''federation'']
   \<and> MeetDate (processRow F r)
       = (case first_truthy r [''MeetDate'', ''meet_date'', ''date'', ''meetdate''] of
            Some s \<Rightarrow> or_null (parseDate F (Str s)) | None \<Rightarrow> None)
   \<and> resolved_number r [''Age'', ''age''] (Age (processRow F r))
   \<and> resolved_number r [''BodyweightKg'', ''bodyweight'', ''bodywt'', ''weight'']
        (BodyweightKg (processRow F r))
   \<and> resolved_number r [''SquatKg'', ''squat'', ''best3sqkg'', ''best3sq'']
        (SquatKg (processRow F r))
   \<and> resolved_number r [''BenchKg'', ''bench'', ''best3bnkg'', ''best3bn'']
        (BenchKg (processRow F r))
   \<and> resolved_number r [''DeadliftKg'', ''deadlift'', ''best3dlkg'', ''best3dl'']
        (DeadliftKg (processRow F r))
   \<and> resolved_number r [''TotalKg'', ''total'', ''totalkg''] (TotalKg (processRow F r))"
  unfolding processRow_def Let_def LifterRecord.simps
  by (intro conjI or_empty_chain2 or_empty_chain3 toNumber_chain2 toNumber_chain3
      toNumber_chain4 parseDate_chain4)

theorem processRow_alias_resolution_witness:
  "Name (processRow no_heuristics row_alias) = ''Bob''
   \<and> Equipment (processRow no_heuristics row_alias) = []
   \<and> MeetDate (processRow no_heuristics row_alias) = None
   \<and> SquatKg (processRow no_heuristics row_alias) = toNumber (Str ''150.5'')
   \<and> BenchKg (processRow no_heuristics row_alias) = None"
  using processRow_alias_resolution [of no_heuristics row_alias]
  by (simp add: resolved_string_def resolved_number_def row_alias_def empty_row_def
      del: toNumber.simps(3))

subsection \<open>C4: normalizeName is not idempotent\<close>

text \<open>
  C4. The claim is that \<^verbatim>\<open>normalizeName\<close> applied to its own output changes nothing, and
  that \<^verbatim>\<open>normalizeName("O'Brien  Jr.")\<close> equals \<^verbatim>\<open>normalizeName("obrien jr")\<close>. The second
  part holds. The first fails: the code trims before it deletes punctuation, so white
  space next to deleted punctuation at an end of the name stays. \<^verbatim>\<open>normalizeName("a !")\<close>
  is \<^verbatim>\<open>"a "\<close>, and \<^verbatim>\<open>normalizeName("a ")\<close> is \<^verbatim>\<open>"a"\<close>.
\<close>

theorem normalizeName_twice_differs:
  "normalizeName (Str ''a !'') = ''a ''
   \<and> normalizeName (Str (normalizeName (Str ''a !''))) = ''a''
   \<and> normalizeName (Str ''O'Brien  Jr.'') = normalizeName (Str ''obrien jr'')"
  by code_simp

subsection \<open>C5: ingestion keeps the rows and their order\<close>

text \<open>
  C5. \<^verbatim>\<open>processCsvData\<close> turns \<open>n\<close> rows into \<open>n\<close> records, the record at each position
  computed from the row at that position alone (so nothing is dropped, merged, sorted or
  aborted by another row), and no rows into no records.
\<close>

theorem processCsvData_keeps_rows:
  "length (processCsvData F rows) = length rows
   \<and> (\<forall>i<length rows. processCsvData F rows ! i = processRow F (rows ! i))
   \<and> processCsvData F [] = []"
  by (simp add: processCsvData_def)

theorem processCsvData_keeps_rows_witness:
  "length (processCsvData no_heuristics [row_jane, row_bad, row_jane]) = 3
   \<and> processCsvData no_heuristics [row_jane, row_bad, row_jane] ! 0 = processRow no_heuristics row_jane
   \<and> processCsvData no_heuristics [row_jane, row_bad, row_jane] ! 1 = processRow no_heuristics row_bad
   \<and> processCsvData no_heuristics [row_jane, row_bad, row_jane] ! 2 = processRow no_heuristics row_jane"
  using processCsvData_keeps_rows [of no_heuristics "[row_jane, row_bad, row_jane]"]
  by (simp add: processCsvData_def)

subsection \<open>C6: toNumber never returns NaN, but can return an infinity\<close>

text \<open>
  C6. The claim is that \<^verbatim>\<open>toNumber\<close> returns \<^verbatim>\<open>null\<close> or a finite number, never NaN and
  never an infinity. The code tests \<^verbatim>\<open>isNaN\<close> only: a cell of a \<^verbatim>\<open>1\<close> and 309 zeros
  denotes \<open>10^309\<close>, beyond the range of the doubles, and \<^verbatim>\<open>toNumber\<close> returns \<^verbatim>\<open>Infinity\<close>.
\<close>

theorem toNumber_infinite_counterexample:
  "toNumber (Str (CHR ''1'' # replicate 309 CHR ''0'')) = Some PInf \<and> \<not> isFinite PInf"
  by code_simp

text \<open>
  C6, amended. For every raw cell value, \<^verbatim>\<open>toNumber\<close> returns \<^verbatim>\<open>null\<close> or a number that is
  not NaN; the number is finite whenever at most 308 characters of the cell are digits,
  points or minus signs.
\<close>

theorem toNumber_never_NaN:
  "(\<forall>n. toNumber v = Some n \<longrightarrow> \<not> isNaN n)
   \<and> (\<forall>s n. v = Str s \<and> length (filter num_char s) \<le> 308 \<and> toNumber v = Some n
          \<longrightarrow> isFinite n)"
proof -
  have "\<not> isNaN n" if "toNumber v = Some n" for n
    using that by (cases v) (auto simp: Let_def split: if_splits)
  moreover have "isFinite n"
    if "v = Str s" and "length (filter num_char s) \<le> 308" and "toNumber v = Some n" for s n
    using toNumber_finite [OF that(2)] that(1,3) by auto
  ultimately show ?thesis by blast
qed

theorem toNumber_never_NaN_witness:
  "length (filter num_char ''102.5 kg'') \<le> 308
   \<and> toNumber (Str ''102.5 kg'') = Some (Fin (205 / 2))
   \<and> \<not> isNaN (Fin (205 / 2)) \<and> isFinite (Fin (205 / 2))"
proof -
  have l: "length (filter num_char ''102.5 kg'') \<le> 308"
    by code_simp
  have t: "toNumber (Str ''102.5 kg'') = Some (Fin (205 / 2))"
    by code_simp
  show ?thesis
    using l t toNumber_never_NaN [of "Str ''102.5 kg''"] by blast
qed

subsection \<open>C7: the equipment filter\<close>

text \<open>
  C7. For every record sequence and every selected name, \<^verbatim>\<open>filtered\<close> with the equipment
  filter \<^verbatim>\<open>Raw\<close> holds exactly those records of the \<^verbatim>\<open>All\<close> result whose equipment contains
  \<^verbatim>\<open>raw\<close> case-insensitively (the lowercased label has \<^verbatim>\<open>raw\<close> as a contiguous block), each
  as often as it occurs there, and with \<^verbatim>\<open>Equipped\<close> exactly the others; with \<^verbatim>\<open>All\<close> it
  holds every record of the selected name. A selected name is a non-empty string: the
  empty string is the state in which no lifter is selected, and \<^verbatim>\<open>filtered\<close> is empty
  then.
\<close>

theorem filtered_equipment_exact:
  "mset (filtered F rows selected Raw)
     = mset (filter (\<lambda>r. sublist ''raw'' (toLowerCase (Equipment r)))
               (filtered F rows selected All))
   \<and> mset (filtered F rows selected Equipped)
       = mset (filter (\<lambda>r. \<not> sublist ''raw'' (toLowerCase (Equipment r)))
                 (filtered F rows selected All))
   \<and> (\<forall>r\<in>set (filtered F rows selected Raw). sublist ''raw'' (toLowerCase (Equipment r)))
   \<and> (selected \<noteq> [] \<longrightarrow>
        mset (filtered F rows selected All) = mset (filter (\<lambda>r. Name r = selected) rows))"
proof (cases "selected = []")
  case True
  then show ?thesis by (simp add: filtered_def)
next
  case False
  note m = filtered_mset [OF False, of F rows]
  have all: "mset (filtered F rows selected All) = mset (filter (\<lambda>r. Name r = selected) rows)"
    using m [of All] by (simp add: keeps_def)
  have raw: "mset (filtered F rows selected Raw)
             = mset (filter (\<lambda>r. sublist ''raw'' (toLowerCase (Equipment r)))
                       (filtered F rows selected All))"
    using m [of Raw] all by (simp add: keeps_def filter_filter_mset)
  have eq: "mset (filtered F rows selected Equipped)
            = mset (filter (\<lambda>r. \<not> sublist ''raw'' (toLowerCase (Equipment r)))
                      (filtered F rows selected All))"
    using m [of Equipped] all by (simp add: keeps_def filter_filter_mset)
  have "set (filtered F rows selected Raw)
        = {r \<in> set (filtered F rows selected All). sublist ''raw'' (toLowerCase (Equipment r))}"
    using raw [THEN arg_cong, of set_mset] by simp
  then show ?thesis
    using all raw eq by simp
qed

theorem filtered_equipment_exact_witness:
  "''Ann'' \<noteq> []
   \<and> map Equipment (filtered no_heuristics sample_records ''Ann'' All)
       = [''RAW+Wraps'', ''Single-ply'', ''Raw'']
   \<and> mset (filtered no_heuristics sample_records ''Ann'' All)
       = mset (filter (\<lambda>r. Name r = ''Ann'') sample_records)
   \<and> map Equipment (filtered no_heuristics sample_records ''Ann'' Raw) = [''RAW+Wraps'', ''Raw'']
   \<and> mset (filtered no_heuristics sample_records ''Ann'' Raw)
       = mset (filter (\<lambda>r. sublist ''raw'' (toLowerCase (Equipment r)))
                 (filtered no_heuristics sample_records ''Ann'' All))
   \<and> map Equipment (filtered no_heuristics sample_records ''Ann'' Equipped) = [''Single-ply'']
   \<and> mset (filtered no_heuristics sample_records ''Ann'' Equipped)
       = mset (filter (\<lambda>r. \<not> sublist ''raw'' (toLowerCase (Equipment r)))
                 (filtered no_heuristics sample_records ''Ann'' All))"
proof -
  have n: "''Ann'' \<noteq> []" by simp
  have a: "map Equipment (filtered no_heuristics sample_records ''Ann'' All)
           = [''RAW+Wraps'', ''Single-ply'', ''Raw'']"
    using sample_ann_all [THEN arg_cong, of "map snd"] by (simp add: comp_def)
  have r: "map Equipment (filtered no_heuristics sample_records ''Ann'' Raw) = [''RAW+Wraps'', ''Raw'']"
    using sample_ann_raw [THEN arg_cong, of "map snd"] by (simp add: comp_def)
  have e: "map Equipment (filtered no_heuristics sample_records ''Ann'' Equipped) = [''Single-ply'']"
    using sample_ann_equipped [THEN arg_cong, of "map snd"] by (simp add: comp_def)
  from n a r e filtered_equipment_exact [of no_heuristics sample_records "''Ann''"]
  show ?thesis by blast
qed

subsection \<open>C8: the result is sorted by date and keeps the records without a date\<close>

text \<open>
  C8. For a selected name, \<^verbatim>\<open>filtered\<close> holds every record that passes the name and the
  equipment filter, those with \<^verbatim>\<open>MeetDate = null\<close> included. It is sorted ascending by the
  time value of \<^verbatim>\<open>MeetDate\<close>, so of two records in it the one with the earlier date does not
  come later, when, as in the data model, every date is \<^verbatim>\<open>null\<close> or a string that
  \<^verbatim>\<open>new Date\<close> can read.
\<close>

theorem filtered_sorted_keeps_all:
  "(selected \<noteq> [] \<longrightarrow>
      mset (filtered F rows selected e)
        = mset (filter (\<lambda>r. Name r = selected \<and> keeps e r) rows)
      \<and> (\<forall>r\<in>set rows. Name r = selected \<and> keeps e r \<and> MeetDate r = None
            \<longrightarrow> r \<in> set (filtered F rows selected e)))
   \<and> ((\<forall>r\<in>set rows. valid_date F r) \<longrightarrow>
        sorted_wrt (\<lambda>a b. time_value F a \<le> time_value F b) (filtered F rows selected e))"
proof -
  have "mset (filtered F rows selected e)
          = mset (filter (\<lambda>r. Name r = selected \<and> keeps e r) rows)
        \<and> (\<forall>r\<in>set rows. Name r = selected \<and> keeps e r \<and> MeetDate r = None
              \<longrightarrow> r \<in> set (filtered F rows selected e))"
    if sel: "selected \<noteq> []"
  proof -
    have m: "mset (filtered F rows selected e)
             = mset (filter (\<lambda>r. Name r = selected \<and> keeps e r) rows)"
      by (rule filtered_mset [OF sel])
    have "set (filtered F rows selected e) = {r \<in> set rows. Name r = selected \<and> keeps e r}"
      using m [THEN arg_cong, of set_mset] by simp
    with m show ?thesis by simp
  qed
  then show ?thesis
    using filtered_sorted [of rows F selected e] by blast
qed

theorem filtered_sorted_keeps_all_witness:
  "''Ann'' \<noteq> []
   \<and> mset (filtered no_heuristics sample_records ''Ann'' All)
       = mset (filter (\<lambda>r. Name r = ''Ann'' \<and> keeps All r) sample_records)
   \<and> sorted_wrt (\<lambda>a b. time_value no_heuristics a \<le> time_value no_heuristics b)
        (filtered no_heuristics sample_records ''Ann'' All)
   \<and> map MeetDate (filtered no_heuristics sample_records ''Ann'' All)
       = [Some ''1969-12-31'', None, Some ''1970-01-02'']"
proof -
  have n: "''Ann'' \<noteq> []" by simp
  have d: "map MeetDate (filtered no_heuristics sample_records ''Ann'' All)
           = [Some ''1969-12-31'', None, Some ''1970-01-02'']"
    using sample_ann_all [THEN arg_cong, of "map fst"] by (simp add: comp_def)
  from n d sample_records_valid
    filtered_sorted_keeps_all [of "''Ann''" no_heuristics sample_records All]
  show ?thesis by blast
qed

subsection \<open>C9: no matching record, or no active lift\<close>

text \<open>
  C9. The claim is that a selected name without matching records, and an empty set of
  active lifts, both give an empty list of series. The second holds. For the first the
  code still maps over the active lifts: it returns one series for each active lift, each
  without points, and the list of series is empty only when no lift is active. Neither
  case is an error.
\<close>

theorem traces_no_match_counterexample:
  "''Nobody'' \<notin> set (map Name sample_records)
   \<and> traces (filtered no_heuristics sample_records ''Nobody'' All) initial_lifts kg
       = [empty_trace Squat, empty_trace Bench, empty_trace Deadlift]"
  by code_simp

theorem traces_without_records:
  "((\<forall>r\<in>set rows. Name r \<noteq> selected) \<longrightarrow>
      filtered F rows selected e = []
      \<and> traces (filtered F rows selected e) lifts unit = map empty_trace (active lifts))
   \<and> ((\<forall>l. \<not> lifts l) \<longrightarrow> traces (filtered F rows selected e) lifts unit = [])"
proof -
  have "filtered F rows selected e = []" if "\<forall>r\<in>set rows. Name r \<noteq> selected"
  proof -
    have "filter (\<lambda>r. Name r = selected) rows = []"
      using that by (simp add: filter_empty_conv)
    then show ?thesis
      by (simp add: filtered_def Let_def array_sort_def)
  qed
  moreover have "traces [] lifts unit = map empty_trace (active lifts)"
    by (simp add: traces_def empty_trace_def)
  moreover have "traces filt lifts unit = []" if "\<forall>l. \<not> lifts l" for filt
    using that by (simp add: traces_def active_def)
  ultimately show ?thesis by simp
qed

theorem traces_without_records_witness:
  "traces (filtered no_heuristics sample_records ''Nobody'' Raw) initial_lifts lb
     = map empty_trace (active initial_lifts)
   \<and> active initial_lifts = [Squat, Bench, Deadlift]
   \<and> traces (filtered no_heuristics sample_records ''Ann'' All) no_lifts kg = []"
proof -
  have a: "\<forall>r\<in>set sample_records. Name r \<noteq> ''Nobody''"
    by code_simp
  have b: "\<forall>l. \<not> no_lifts l"
    by (simp add: no_lifts_def)
  have c: "active initial_lifts = [Squat, Bench, Deadlift]"
    by (simp add: active_def initial_lifts_def)
  have t: "traces (filtered no_heuristics sample_records ''Nobody'' Raw) initial_lifts lb
           = map empty_trace (active initial_lifts)"
    using a traces_without_records [of sample_records "''Nobody''" no_heuristics Raw initial_lifts lb]
    by blast
  have u: "traces (filtered no_heuristics sample_records ''Ann'' All) no_lifts kg = []"
    using b traces_without_records [of sample_records "''Ann''" no_heuristics All no_lifts kg]
    by blast
  from t c u show ?thesis by blast
qed

subsection \<open>C10: a record without a date sorts as 1970-01-01\<close>

text \<open>
  C10. In the sort of \<^verbatim>\<open>filtered\<close> a record with \<^verbatim>\<open>MeetDate = null\<close> has the time value
  \<open>0\<close>, the Unix epoch: in the result it stands before every record dated after the epoch
  and behind every record dated before it, so \<^verbatim>\<open>null\<close> is not always the earliest. Here
  \<open>i\<close> is the position of a record without a date, \<open>j\<close> that of a record with the date
  \<open>d\<close>, whose time value is \<open>t\<close>.
\<close>

theorem null_date_sorts_as_epoch:
  assumes "\<forall>r\<in>set rows. valid_date F r"
    and "i < length (filtered F rows selected e)"
    and "j < length (filtered F rows selected e)"
    and "MeetDate (filtered F rows selected e ! i) = None"
    and "MeetDate (filtered F rows selected e ! j) = Some d"
    and "Date_parse F d = Some t"
  shows "new_Date F (MeetDate (filtered F rows selected e ! i)) = Some 0
       \<and> (if 0 < t then i < j else if t < 0 then j < i else True)"
proof -
  let ?out = "filtered F rows selected e"
  have s: "sorted_wrt (\<lambda>a b. time_value F a \<le> time_value F b) ?out"
    by (rule filtered_sorted [OF assms(1)])
  have ki: "time_value F (?out ! i) = 0"
    using assms(4) by (simp add: time_value_def new_Date_def)
  have kj: "time_value F (?out ! j) = t"
    using assms(5,6) by (simp add: time_value_def new_Date_def)
  have le: "time_value F (?out ! a) \<le> time_value F (?out ! b)"
    if "a < b" and "b < length ?out" for a b
    using s that by (simp add: sorted_wrt_iff_nth_less)
  have "i < j" if "0 < t"
  proof (rule ccontr)
    assume "\<not> i < j"
    moreover have "i \<noteq> j" using assms(4,5) by auto
    ultimately have "j < i" by simp
    from le [OF this assms(2)] ki kj that show False by simp
  qed
  moreover have "j < i" if "t < 0"
  proof (rule ccontr)
    assume "\<not> j < i"
    moreover have "i \<noteq> j" using assms(4,5) by auto
    ultimately have "i < j" by simp
    from le [OF this assms(3)] ki kj that show False by simp
  qed
  ultimately show ?thesis
    using assms(4) by (simp add: new_Date_def)
qed

theorem null_date_sorts_as_epoch_witness:
  "map MeetDate (filtered no_heuristics sample_records ''Ann'' All)
     = [Some ''1969-12-31'', None, Some ''1970-01-02'']
   \<and> Date_parse no_heuristics ''1969-12-31'' = Some (- 86400000)
   \<and> Date_parse no_heuristics ''1970-01-02'' = Some 86400000
   \<and> new_Date no_heuristics (MeetDate (filtered no_heuristics sample_records ''Ann'' All ! 1)) = Some 0
   \<and> (0::nat) < 1 \<and> (1::nat) < 2"
proof -
  let ?out = "filtered no_heuristics sample_records ''Ann'' All"
  have m: "map MeetDate ?out = [Some ''1969-12-31'', None, Some ''1970-01-02'']"
    using sample_ann_all [THEN arg_cong, of "map fst"] by (simp add: comp_def)
  have len: "length ?out = 3"
    using m [THEN arg_cong, of length] by simp
  have d0: "MeetDate (?out ! 0) = Some ''1969-12-31''"
    and d1: "MeetDate (?out ! 1) = None"
    and d2: "MeetDate (?out ! 2) = Some ''1970-01-02''"
    using m len by (simp_all add: list_eq_iff_nth_eq)
  have l0: "0 < length ?out" and l1: "1 < length ?out" and l2: "2 < length ?out"
    using len by simp_all
  show ?thesis
    using m sample_dates
      null_date_sorts_as_epoch [OF sample_records_valid l1 l2 d1 d2 conjunct2 [OF sample_dates]]
      null_date_sorts_as_epoch [OF sample_records_valid l1 l0 d1 d0 conjunct1 [OF sample_dates]]
    by simp
qed

end
